theory Spec2Isabelle
  imports Main "HOL-Library.AList"
begin

section \<open>Data model\<close>

text \<open>
  The socket handlers of \<^verbatim>\<open>src/server.js\<close> (\<^verbatim>\<open>io.on('connection', ...)\<close>) are
  embedded as functions on an explicit hub state. User ids and connection ids are
  strings, as in the source.
\<close>

type_synonym uid = string
type_synonym sid = string

text \<open>
  The \<^verbatim>\<open>whiteboardId\<close> of a join request as the client's JSON gives it. The handler hands
  this raw value to the store, to \<^verbatim>\<open>socket.join\<close> and to the socket's \<^verbatim>\<open>whiteboardId\<close>
  field alike, so a room is named by the raw value: the number \<^verbatim>\<open>0\<close> and the string
  \<^verbatim>\<open>'0'\<close> are two rooms. Numbers are integers here. Arrays and objects are left out (an
  array names several rooms at once, an object is a room name by identity).
\<close>

datatype raw = RUndefined | RNull | RBool bool | RNum int | RStr string

text \<open>
  Values that travel in event payloads. An object is an association list: the order of
  the keys is the insertion order, and assigning an existing key replaces its value in
  place (\<^const>\<open>AList.update\<close>), as for a JavaScript object.
\<close>

datatype json =
    JUndefined
  | JNull
  | JBool bool
  | JNum int
  | JStr string
  | JArr "json list"
  | JObj "(string \<times> json) list"

type_synonym obj = "(string \<times> json) list"

text \<open>An outbound message: the receiving connection, the event name, the payload.\<close>

type_synonym out = "sid \<times> string \<times> obj"

text \<open>
  The Whiteboard document as the join handler reads it (\<^verbatim>\<open>WhiteboardSchema\<close>): the
  owner, the collaborators in stored order, the public flag. References are taken as
  populated (\<^verbatim>\<open>owner._id\<close> and \<^verbatim>\<open>collab.user._id\<close> exist); \<^verbatim>\<open>permission\<close> is the stored
  string.
\<close>

record collaborator =
  user :: uid
  permission :: string

record whiteboard =
  owner :: uid
  collaborators :: "collaborator list"
  isPublic :: bool

text \<open>
  The ad hoc fields the handlers keep on the socket object. Each is \<^verbatim>\<open>undefined\<close>
  until a join assigns it.
\<close>

record socket =
  userId :: "uid option"
  username :: "string option"
  userRole :: "string option"
  canEdit :: "bool option"
  whiteboardId :: raw

text \<open>
  The state of the server process: \<^verbatim>\<open>io.sockets.sockets\<close> (the open sockets by connection
  id) and \<^verbatim>\<open>io.sockets.adapter.rooms\<close> (a map from room name to the set of connection ids
  in it, kept in insertion order; a room that becomes empty is deleted). The rooms
  include the one socket.io keeps for every open connection under the connection's own
  id.
\<close>

record hub =
  sockets :: "sid \<rightharpoonup> socket"
  rooms :: "raw \<rightharpoonup> sid list"

text \<open>
  What the join handler awaits from outside: \<^verbatim>\<open>jwt.verify\<close> (\<^const>\<open>None\<close> when it throws),
  \<^verbatim>\<open>User.findById\<close> (the user's \<^verbatim>\<open>username\<close>) and \<^verbatim>\<open>Whiteboard.findById\<close> applied to the
  raw id. The store casts the raw id to the string type of \<^verbatim>\<open>_id\<close> before it looks, so
  the number \<^verbatim>\<open>0\<close> finds the board stored as \<^verbatim>\<open>'0'\<close>; which raw values find which
  document is the store's answer and is not fixed here.
\<close>

record env =
  jwt_verify :: "string \<Rightarrow> uid option"
  users :: "uid \<rightharpoonup> string"
  whiteboards :: "raw \<Rightarrow> whiteboard option"

text \<open>
  What happens to a connection: it opens, one of its handlers runs, its transport
  closes. A join request carries the raw whiteboard id and the token, a string or
  nothing (a token of another type fails \<^verbatim>\<open>jwt.verify\<close> as an invalid string does); every
  other request carries its payload object.
\<close>

datatype event =
    Connect
  | JoinWhiteboard raw "string option"
  | Drawing obj
  | DrawingStart obj
  | DrawingEnd obj
  | StickyNoteAdd obj
  | StickyNoteUpdate obj
  | StickyNoteDelete obj
  | Undo obj
  | Redo obj
  | ClearBoard obj
  | CursorMove obj
  | Disconnect

section \<open>socket.io primitives\<close>

definition empty_hub :: hub where
  "empty_hub = \<lparr>sockets = Map.empty, rooms = Map.empty\<rparr>"

definition new_socket :: socket where
  "new_socket = \<lparr>userId = None, username = None, userRole = None, canEdit = None,
     whiteboardId = RUndefined\<rparr>"

text \<open>
  JavaScript truthiness of a raw value: \<^verbatim>\<open>undefined\<close>, \<^verbatim>\<open>null\<close>, \<^verbatim>\<open>false\<close>, \<^verbatim>\<open>0\<close> and
  \<^verbatim>\<open>''\<close> are falsy.
\<close>

definition truthy :: "raw \<Rightarrow> bool" where
  "truthy v =
     (case v of
        RUndefined \<Rightarrow> False
      | RNull \<Rightarrow> False
      | RBool b \<Rightarrow> b
      | RNum n \<Rightarrow> n \<noteq> 0
      | RStr x \<Rightarrow> x \<noteq> [])"

text \<open>The same for the token of a join request, an optional string.\<close>

definition truthy_token :: "string option \<Rightarrow> bool" where
  "truthy_token v = (case v of None \<Rightarrow> False | Some x \<Rightarrow> x \<noteq> [])"

definition json_of :: "raw \<Rightarrow> json" where
  "json_of v =
     (case v of
        RUndefined \<Rightarrow> JUndefined
      | RNull \<Rightarrow> JNull
      | RBool b \<Rightarrow> JBool b
      | RNum n \<Rightarrow> JNum n
      | RStr x \<Rightarrow> JStr x)"

definition js_str :: "string option \<Rightarrow> json" where
  "js_str v = (case v of None \<Rightarrow> JUndefined | Some x \<Rightarrow> JStr x)"

definition members :: "hub \<Rightarrow> raw \<Rightarrow> sid list" where
  "members st w = (case rooms st w of None \<Rightarrow> [] | Some ms \<Rightarrow> ms)"

text \<open>\<^verbatim>\<open>socket.emit('error', { message: m })\<close>: to the socket itself only.\<close>

definition emit_error :: "sid \<Rightarrow> string \<Rightarrow> out" where
  "emit_error sid m = (sid, ''error'', [(''message'', JStr m)])"

text \<open>
  \<^verbatim>\<open>socket.to(room).emit(ev, payload)\<close>: to every connection in the room of that name
  except the sender; nothing when no such room exists.
\<close>

definition to_room :: "hub \<Rightarrow> sid \<Rightarrow> raw \<Rightarrow> string \<Rightarrow> obj \<Rightarrow> out list" where
  "to_room st sid w ev payload =
     map (\<lambda>m. (m, ev, payload)) (filter (\<lambda>m. m \<noteq> sid) (members st w))"

text \<open>\<^verbatim>\<open>socket.join(room)\<close>: adds the connection to the room's set, creating the room.\<close>

definition socket_join :: "hub \<Rightarrow> sid \<Rightarrow> raw \<Rightarrow> hub" where
  "socket_join st sid w =
     st\<lparr>rooms := (rooms st)(w \<mapsto>
        (case rooms st w of
           None \<Rightarrow> [sid]
         | Some ms \<Rightarrow> if sid \<in> set ms then ms else ms @ [sid]))\<rparr>"

text \<open>
  What socket.io does when a connection opens, before the \<^verbatim>\<open>connection\<close> callback runs:
  the socket enters the open sockets and joins the room named by its own id.
\<close>

definition socket_open :: "hub \<Rightarrow> sid \<Rightarrow> hub" where
  "socket_open st sid =
     socket_join (st\<lparr>sockets := (sockets st)(sid \<mapsto> new_socket)\<rparr>) sid (RStr sid)"

text \<open>
  What socket.io does to a closing connection before the \<^verbatim>\<open>disconnect\<close> handlers run:
  it leaves every room it is in, and is removed from the open sockets.
\<close>

definition leave_all :: "(raw \<rightharpoonup> sid list) \<Rightarrow> sid \<Rightarrow> (raw \<rightharpoonup> sid list)" where
  "leave_all rs sid =
     (\<lambda>w. case rs w of
             None \<Rightarrow> None
           | Some ms \<Rightarrow>
               if sid \<in> set ms
               then (if removeAll sid ms = [] then None else Some (removeAll sid ms))
               else Some ms)"

definition socket_close :: "hub \<Rightarrow> sid \<Rightarrow> hub" where
  "socket_close st sid =
     st\<lparr>sockets := (sockets st)(sid := None), rooms := leave_all (rooms st) sid\<rparr>"

section \<open>The join handler\<close>

text \<open>
  The permission check of \<^verbatim>\<open>join-whiteboard\<close> (server.js, lines 76 to 98): the role and
  the edit flag, or the message of the error branch.
\<close>

definition check_access :: "whiteboard \<Rightarrow> uid \<Rightarrow> string + (string \<times> bool)" where
  "check_access wb u =
     (if owner wb = u then Inr (''owner'', True)
      else
        (case find (\<lambda>collab. user collab = u) (collaborators wb) of
           Some collaborator \<Rightarrow>
             Inr (permission collaborator,
                  permission collaborator \<in> set [''edit'', ''admin''])
         | None \<Rightarrow>
             if isPublic wb then Inr (''viewer'', False)
             else Inl ''Access denied''))"

text \<open>
  The room snapshot sent to the joiner (lines 121 to 129): one entry per connection id of
  the room, dropping ids with no open socket.
\<close>

definition usersInRoom :: "hub \<Rightarrow> raw \<Rightarrow> obj list" where
  "usersInRoom st w =
     (case rooms st w of
        None \<Rightarrow> []
      | Some room \<Rightarrow>
          List.map_filter
            (\<lambda>socketId.
               case sockets st socketId of
                 None \<Rightarrow> None
               | Some socketInfo \<Rightarrow>
                   Some [(''socketId'', JStr socketId),
                         (''username'', js_str (username socketInfo)),
                         (''userRole'', js_str (userRole socketInfo))])
            room)"

text \<open>
  The \<^verbatim>\<open>join-whiteboard\<close> handler (lines 45 to 142) on an open socket. Everything it
  reads from or writes to the hub state comes after its last \<^verbatim>\<open>await\<close>, so it is one step
  on the state, taken when the lookups have returned. A throwing \<^verbatim>\<open>jwt.verify\<close> lands in
  the \<^verbatim>\<open>catch\<close> branch.
\<close>

definition on_join ::
    "env \<Rightarrow> hub \<Rightarrow> sid \<Rightarrow> socket \<Rightarrow> raw \<Rightarrow> string option \<Rightarrow> hub \<times> out list" where
  "on_join e st sid s w token =
     (if \<not> truthy_token token then (st, [emit_error sid ''Authentication required''])
      else
        (case jwt_verify e (case token of None \<Rightarrow> [] | Some t \<Rightarrow> t) of
           None \<Rightarrow> (st, [emit_error sid ''Failed to join whiteboard''])
         | Some u \<Rightarrow>
        (case users e u of
           None \<Rightarrow> (st, [emit_error sid ''User not found''])
         | Some name \<Rightarrow>
        (case whiteboards e w of
           None \<Rightarrow> (st, [emit_error sid ''Whiteboard not found''])
         | Some wb \<Rightarrow>
        (case check_access wb u of
           Inl m \<Rightarrow> (st, [emit_error sid m])
         | Inr (role, ce) \<Rightarrow>
             (let st1 = socket_join st sid w;
                  s' = s\<lparr>userId := Some u, username := Some name, userRole := Some role,
                         canEdit := Some ce, whiteboardId := w\<rparr>;
                  st2 = st1\<lparr>sockets := (sockets st1)(sid \<mapsto> s')\<rparr>
              in (st2,
                  to_room st2 sid w ''user-joined''
                    [(''userId'', JStr u), (''username'', JStr name),
                     (''userRole'', JStr role), (''socketId'', JStr sid)]
                  @ [(sid, ''room-info'',
                      [(''whiteboardId'', json_of w),
                       (''users'', JArr (map JObj (usersInRoom st2 w))),
                       (''yourRole'', JStr role), (''canEdit'', JBool ce)])])))))))"

text \<open>
  The same handler when its lookups return after the transport has closed. The token
  test and \<^verbatim>\<open>jwt.verify\<close> ran while the socket was open, so only the part after the
  lookups is left: \<^verbatim>\<open>socket.join\<close> does nothing on a closed socket and what is emitted to
  the socket itself is not delivered, but \<^verbatim>\<open>socket.to(whiteboardId).emit('user-joined')\<close>
  still goes to the room.
\<close>

definition on_join_closed :: "env \<Rightarrow> hub \<Rightarrow> sid \<Rightarrow> raw \<Rightarrow> string option \<Rightarrow> out list" where
  "on_join_closed e st sid w token =
     (if \<not> truthy_token token then []
      else
        (case jwt_verify e (case token of None \<Rightarrow> [] | Some t \<Rightarrow> t) of
           None \<Rightarrow> []
         | Some u \<Rightarrow>
        (case users e u of
           None \<Rightarrow> []
         | Some name \<Rightarrow>
        (case whiteboards e w of
           None \<Rightarrow> []
         | Some wb \<Rightarrow>
        (case check_access wb u of
           Inl m \<Rightarrow> []
         | Inr (role, ce) \<Rightarrow>
             to_room st sid w ''user-joined''
               [(''userId'', JStr u), (''username'', JStr name),
                (''userRole'', JStr role), (''socketId'', JStr sid)])))))"

section \<open>The relay handlers\<close>

text \<open>The object literal \<^verbatim>\<open>{ ...data, userId: socket.userId, username: socket.username }\<close>.\<close>

definition with_sender :: "socket \<Rightarrow> obj \<Rightarrow> obj" where
  "with_sender s data =
     AList.update ''username'' (js_str (username s))
       (AList.update ''userId'' (js_str (userId s)) data)"

definition on_drawing :: "hub \<Rightarrow> sid \<Rightarrow> socket \<Rightarrow> obj \<Rightarrow> out list" where
  "on_drawing st sid s data =
     (if canEdit s \<noteq> Some True
      then [emit_error sid ''You do not have permission to draw'']
      else to_room st sid (whiteboardId s) ''drawing'' (with_sender s data))"

definition on_drawing_start :: "hub \<Rightarrow> sid \<Rightarrow> socket \<Rightarrow> obj \<Rightarrow> out list" where
  "on_drawing_start st sid s data =
     (if canEdit s \<noteq> Some True
      then [emit_error sid ''You do not have permission to draw'']
      else to_room st sid (whiteboardId s) ''drawing-start'' (with_sender s data))"

definition on_drawing_end :: "hub \<Rightarrow> sid \<Rightarrow> socket \<Rightarrow> obj \<Rightarrow> out list" where
  "on_drawing_end st sid s data =
     (if canEdit s \<noteq> Some True
      then [emit_error sid ''You do not have permission to draw'']
      else to_room st sid (whiteboardId s) ''drawing-end'' (with_sender s data))"

definition on_sticky_note_add :: "hub \<Rightarrow> sid \<Rightarrow> socket \<Rightarrow> obj \<Rightarrow> out list" where
  "on_sticky_note_add st sid s data =
     (if canEdit s \<noteq> Some True
      then [emit_error sid ''You do not have permission to add sticky notes'']
      else to_room st sid (whiteboardId s) ''sticky-note-add'' (with_sender s data))"

definition on_sticky_note_update :: "hub \<Rightarrow> sid \<Rightarrow> socket \<Rightarrow> obj \<Rightarrow> out list" where
  "on_sticky_note_update st sid s data =
     (if canEdit s \<noteq> Some True
      then [emit_error sid ''You do not have permission to edit sticky notes'']
      else to_room st sid (whiteboardId s) ''sticky-note-update'' (with_sender s data))"

definition on_sticky_note_delete :: "hub \<Rightarrow> sid \<Rightarrow> socket \<Rightarrow> obj \<Rightarrow> out list" where
  "on_sticky_note_delete st sid s data =
     (if canEdit s \<noteq> Some True
      then [emit_error sid ''You do not have permission to delete sticky notes'']
      else to_room st sid (whiteboardId s) ''sticky-note-delete'' (with_sender s data))"

definition on_undo :: "hub \<Rightarrow> sid \<Rightarrow> socket \<Rightarrow> obj \<Rightarrow> out list" where
  "on_undo st sid s data =
     (if canEdit s \<noteq> Some True
      then [emit_error sid ''You do not have permission to perform this action'']
      else to_room st sid (whiteboardId s) ''undo'' (with_sender s data))"

definition on_redo :: "hub \<Rightarrow> sid \<Rightarrow> socket \<Rightarrow> obj \<Rightarrow> out list" where
  "on_redo st sid s data =
     (if canEdit s \<noteq> Some True
      then [emit_error sid ''You do not have permission to perform this action'']
      else to_room st sid (whiteboardId s) ''redo'' (with_sender s data))"

definition on_clear_board :: "hub \<Rightarrow> sid \<Rightarrow> socket \<Rightarrow> obj \<Rightarrow> out list" where
  "on_clear_board st sid s data =
     (if userRole s \<noteq> Some ''owner'' \<and> userRole s \<noteq> Some ''admin''
      then [emit_error sid ''You do not have permission to clear the board'']
      else to_room st sid (whiteboardId s) ''clear-board'' (with_sender s data))"

definition on_cursor_move :: "hub \<Rightarrow> sid \<Rightarrow> socket \<Rightarrow> obj \<Rightarrow> out list" where
  "on_cursor_move st sid s data =
     (if truthy (whiteboardId s)
      then to_room st sid (whiteboardId s) ''cursor-move''
             (AList.update ''socketId'' (JStr sid) (with_sender s data))
      else [])"

text \<open>
  The \<^verbatim>\<open>disconnect\<close> handler. socket.io has already closed the connection
  (\<^const>\<open>socket_close\<close>) when it runs; the closure still reads the fields of the socket.
\<close>

definition on_disconnect :: "hub \<Rightarrow> sid \<Rightarrow> socket \<Rightarrow> hub \<times> out list" where
  "on_disconnect st sid s =
     (let st1 = socket_close st sid
      in (st1,
          if truthy (whiteboardId s)
          then to_room st1 sid (whiteboardId s) ''user-left''
                 [(''userId'', js_str (userId s)), (''username'', js_str (username s)),
                  (''socketId'', JStr sid)]
          else []))"

section \<open>The event loop\<close>

text \<open>
  One handler of connection \<open>sid\<close>, run to completion. \<^const>\<open>Connect\<close> opens the
  connection with no field assigned. A connection that is not open receives no events;
  the one handler that can still finish for it is a join whose lookups return after the
  transport closed.
\<close>

definition step :: "env \<Rightarrow> sid \<Rightarrow> event \<Rightarrow> hub \<Rightarrow> hub \<times> out list" where
  "step e sid ev st =
     (case sockets st sid of
        None \<Rightarrow>
          (case ev of
             Connect \<Rightarrow> (socket_open st sid, [])
           | JoinWhiteboard w token \<Rightarrow> (st, on_join_closed e st sid w token)
           | _ \<Rightarrow> (st, []))
      | Some s \<Rightarrow>
          (case ev of
             Connect \<Rightarrow> (st, [])
           | JoinWhiteboard w token \<Rightarrow> on_join e st sid s w token
           | Drawing data \<Rightarrow> (st, on_drawing st sid s data)
           | DrawingStart data \<Rightarrow> (st, on_drawing_start st sid s data)
           | DrawingEnd data \<Rightarrow> (st, on_drawing_end st sid s data)
           | StickyNoteAdd data \<Rightarrow> (st, on_sticky_note_add st sid s data)
           | StickyNoteUpdate data \<Rightarrow> (st, on_sticky_note_update st sid s data)
           | StickyNoteDelete data \<Rightarrow> (st, on_sticky_note_delete st sid s data)
           | Undo data \<Rightarrow> (st, on_undo st sid s data)
           | Redo data \<Rightarrow> (st, on_redo st sid s data)
           | ClearBoard data \<Rightarrow> (st, on_clear_board st sid s data)
           | CursorMove data \<Rightarrow> (st, on_cursor_move st sid s data)
           | Disconnect \<Rightarrow> on_disconnect st sid s))"

fun run :: "hub \<Rightarrow> (env \<times> sid \<times> event) list \<Rightarrow> hub" where
  "run st [] = st"
| "run st ((e, sid, ev) # tr) = run (fst (step e sid ev st)) tr"

section \<open>Membership seen from outside\<close>

text \<open>
  A join has succeeded when the joiner was sent \<^verbatim>\<open>room-info\<close>. The connections that have
  joined room \<open>w\<close> successfully and whose transport has not closed since are tracked
  along a run from the events and their outcomes alone, starting from the set \<open>J\<close>.
  The source has no handler by which a connection leaves a room while staying open.
\<close>

definition join_succeeded :: "sid \<Rightarrow> out list \<Rightarrow> bool" where
  "join_succeeded sid outs = ((sid, ''room-info'') \<in> set (map (\<lambda>(r, ev, p). (r, ev)) outs))"

fun joined :: "raw \<Rightarrow> hub \<Rightarrow> (env \<times> sid \<times> event) list \<Rightarrow> sid set \<Rightarrow> sid set" where
  "joined w st [] J = J"
| "joined w st ((e, sid, ev) # tr) J =
     joined w (fst (step e sid ev st)) tr
       (case ev of
          JoinWhiteboard w' token \<Rightarrow>
            if w' = w \<and> join_succeeded sid (snd (step e sid ev st)) then insert sid J else J
        | Disconnect \<Rightarrow> J - {sid}
        | _ \<Rightarrow> J)"

text \<open>The connections that have opened and not closed since, starting from the set \<open>A\<close>.\<close>

fun opened :: "(env \<times> sid \<times> event) list \<Rightarrow> sid set \<Rightarrow> sid set" where
  "opened [] A = A"
| "opened ((e, sid, ev) # tr) A =
     opened tr (case ev of Connect \<Rightarrow> insert sid A | Disconnect \<Rightarrow> A - {sid} | _ \<Rightarrow> A)"

text \<open>The connection ids listed by a snapshot, in order.\<close>

definition snapshot_ids :: "obj list \<Rightarrow> sid list" where
  "snapshot_ids entries =
     concat (map (\<lambda>entry. case map_of entry ''socketId'' of Some (JStr m) \<Rightarrow> [m] | _ \<Rightarrow> [])
       entries)"

section \<open>Invariants of the hub state\<close>

text \<open>
  Every room lists each connection at most once, and only connections that are open;
  every open connection is in the room named by its own id.
\<close>

definition hub_inv :: "hub \<Rightarrow> bool" where
  "hub_inv st =
     ((\<forall>w. distinct (members st w) \<and> set (members st w) \<subseteq> dom (sockets st)) \<and>
      (\<forall>sid. sid \<in> dom (sockets st) \<longrightarrow> sid \<in> set (members st (RStr sid))))"

text \<open>
  With \<open>J w\<close> the connections that have joined \<open>w\<close> and not closed since: an open
  connection either has no field assigned yet, or has joined the room it caches.
\<close>

definition cached_room_inv :: "hub \<Rightarrow> (raw \<Rightarrow> sid set) \<Rightarrow> bool" where
  "cached_room_inv st J =
     (\<forall>sid s. sockets st sid = Some s \<longrightarrow> s = new_socket \<or> sid \<in> J (whiteboardId s))"

section \<open>A sample deployment\<close>

text \<open>
  \<^verbatim>\<open>board1\<close> is private, owned by alice, with bob (edit) and carol (view) as
  collaborators; \<^verbatim>\<open>board2\<close> is public and owned by bob; dave made a public board and
  chose \<^verbatim>\<open>s1\<close> as its id; alice made a public board stored as \<^verbatim>\<open>'0'\<close>, which the store
  also finds for the number \<^verbatim>\<open>0\<close>. After \<open>demo_trace\<close> alice, bob and carol are in
  \<^verbatim>\<open>board1\<close>, on the connections \<^verbatim>\<open>s1\<close>, \<^verbatim>\<open>s2\<close> and \<^verbatim>\<open>s3\<close>.
\<close>

definition demo_env :: env where
  "demo_env =
     \<lparr>jwt_verify = (\<lambda>t. if t = ''tok-alice'' then Some ''alice''
                          else if t = ''tok-bob'' then Some ''bob''
                          else if t = ''tok-carol'' then Some ''carol''
                          else if t = ''tok-dave'' then Some ''dave'' else None),
      users = [''alice'' \<mapsto> ''Alice'', ''bob'' \<mapsto> ''Bob'', ''carol'' \<mapsto> ''Carol'',
               ''dave'' \<mapsto> ''Dave''],
      whiteboards =
        (\<lambda>w. if w = RStr ''board1''
              then Some \<lparr>owner = ''alice'',
                         collaborators = [\<lparr>user = ''bob'', permission = ''edit''\<rparr>,
                                          \<lparr>user = ''carol'', permission = ''view''\<rparr>],
                         isPublic = False\<rparr>
              else if w = RStr ''board2''
              then Some \<lparr>owner = ''bob'', collaborators = [], isPublic = True\<rparr>
              else if w = RStr ''s1''
              then Some \<lparr>owner = ''dave'', collaborators = [], isPublic = True\<rparr>
              else if w = RStr ''0'' \<or> w = RNum 0
              then Some \<lparr>owner = ''alice'', collaborators = [], isPublic = True\<rparr>
              else None)\<rparr>"

definition demo_trace :: "(env \<times> sid \<times> event) list" where
  "demo_trace =
     [(demo_env, ''s1'', Connect),
      (demo_env, ''s1'', JoinWhiteboard (RStr ''board1'') (Some ''tok-alice'')),
      (demo_env, ''s2'', Connect),
      (demo_env, ''s2'', JoinWhiteboard (RStr ''board1'') (Some ''tok-bob'')),
      (demo_env, ''s3'', Connect),
      (demo_env, ''s3'', JoinWhiteboard (RStr ''board1'') (Some ''tok-carol''))]"

definition alice_socket :: socket where
  "alice_socket = \<lparr>userId = Some ''alice'', username = Some ''Alice'', userRole = Some ''owner'',
     canEdit = Some True, whiteboardId = RStr ''board1''\<rparr>"

definition bob_socket :: socket where
  "bob_socket = \<lparr>userId = Some ''bob'', username = Some ''Bob'', userRole = Some ''edit'',
     canEdit = Some True, whiteboardId = RStr ''board1''\<rparr>"

definition carol_socket :: socket where
  "carol_socket = \<lparr>userId = Some ''carol'', username = Some ''Carol'', userRole = Some ''view'',
     canEdit = Some False, whiteboardId = RStr ''board1''\<rparr>"

definition demo_hub :: hub where
  "demo_hub =
     \<lparr>sockets = [''s1'' \<mapsto> alice_socket, ''s2'' \<mapsto> bob_socket, ''s3'' \<mapsto> carol_socket],
      rooms = [RStr ''s1'' \<mapsto> [''s1''], RStr ''s2'' \<mapsto> [''s2''], RStr ''s3'' \<mapsto> [''s3''],
               RStr ''board1'' \<mapsto> [''s1'', ''s2'', ''s3'']]\<rparr>"

text \<open>The same hub after bob has also joined \<^verbatim>\<open>board2\<close>, which he owns.\<close>

definition bob_socket2 :: socket where
  "bob_socket2 = \<lparr>userId = Some ''bob'', username = Some ''Bob'', userRole = Some ''owner'',
     canEdit = Some True, whiteboardId = RStr ''board2''\<rparr>"

definition demo_hub2 :: hub where
  "demo_hub2 =
     \<lparr>sockets = [''s1'' \<mapsto> alice_socket, ''s2'' \<mapsto> bob_socket2, ''s3'' \<mapsto> carol_socket],
      rooms = [RStr ''s1'' \<mapsto> [''s1''], RStr ''s2'' \<mapsto> [''s2''], RStr ''s3'' \<mapsto> [''s3''],
               RStr ''board1'' \<mapsto> [''s1'', ''s2'', ''s3''], RStr ''board2'' \<mapsto> [''s2'']]\<rparr>"

section \<open>Basic facts\<close>

lemmas demo_defs = demo_env_def demo_hub_def demo_hub2_def alice_socket_def bob_socket_def
  bob_socket2_def carol_socket_def

lemmas handler_defs = step_def on_join_def on_disconnect_def socket_join_def socket_open_def
  socket_close_def leave_all_def to_room_def members_def usersInRoom_def check_access_def
  emit_error_def truthy_def truthy_token_def json_of_def js_str_def new_socket_def
  empty_hub_def Let_def List.map_filter_def

lemmas relay_defs = on_drawing_def on_drawing_start_def on_drawing_end_def
  on_sticky_note_add_def on_sticky_note_update_def on_sticky_note_delete_def on_undo_def
  on_redo_def

lemma run_append: "run st (tr @ tr') = run (run st tr) tr'"
  by (induction tr arbitrary: st) auto

lemma demo_hub_reachable: "run empty_hub demo_trace = demo_hub"
  by (simp add: demo_trace_def demo_defs handler_defs fun_eq_iff)


lemma find_first:
  "u \<notin> user ` set pre \<Longrightarrow> user c = u \<Longrightarrow>
   find (\<lambda>collab. user collab = u) (pre @ c # post) = Some c"
  by (induction pre) auto

lemma find_absent:
  "u \<notin> user ` set cs \<Longrightarrow> find (\<lambda>collab. user collab = u) cs = None"
  by (auto simp: find_None_iff)

lemma removeAll_as_filter: "removeAll x ms = filter (\<lambda>m. m \<noteq> x) ms"
  by (induction ms) auto

lemma filter_absent: "x \<notin> set ms \<Longrightarrow> filter (\<lambda>m. m \<noteq> x) ms = ms"
  by (induction ms) auto

lemma members_socket_close:
  "members (socket_close st sid) w = filter (\<lambda>m. m \<noteq> sid) (members st w)"
  by (simp add: members_def socket_close_def leave_all_def removeAll_as_filter filter_absent
      split: option.splits)

lemma sockets_socket_close: "sockets (socket_close st sid) = (sockets st)(sid := None)"
  by (simp add: socket_close_def)

lemma members_socket_join:
  "members (socket_join st sid w) w' =
     (if w' = w then (if sid \<in> set (members st w) then members st w else members st w @ [sid])
      else members st w')"
  by (simp add: members_def socket_join_def split: option.splits)

lemma rooms_socket_join_other: "w' \<noteq> w \<Longrightarrow> rooms (socket_join st sid w) w' = rooms st w'"
  by (simp add: socket_join_def)

lemma sockets_socket_join: "sockets (socket_join st sid w) = sockets st"
  by (simp add: socket_join_def)

lemma members_sockets_update: "members (st\<lparr>sockets := f\<rparr>) w = members st w"
  by (simp add: members_def)

lemma members_socket_open:
  "members (socket_open st sid) w =
     (if w = RStr sid
      then (if sid \<in> set (members st w) then members st w else members st w @ [sid])
      else members st w)"
  by (simp add: socket_open_def members_socket_join members_sockets_update)

lemma sockets_socket_open: "sockets (socket_open st sid) = (sockets st)(sid \<mapsto> new_socket)"
  by (simp add: socket_open_def sockets_socket_join)

lemma socket_overwrite:
  "(s::socket)\<lparr>userId := a, username := b, userRole := c, canEdit := d, whiteboardId := x\<rparr> =
     \<lparr>userId = a, username = b, userRole = c, canEdit = d, whiteboardId = x\<rparr>"
  by (cases s) simp

text \<open>
  The join handler has two outcomes on an open socket: an error to the joiner with the
  state untouched, or the joiner added to the room and its fields assigned.
\<close>

lemma on_join_result:
  "(\<not> join_succeeded sid (snd (on_join e st sid s w tok)) \<and> fst (on_join e st sid s w tok) = st) \<or>
   (join_succeeded sid (snd (on_join e st sid s w tok)) \<and>
    (\<exists>u name role ce.
       fst (on_join e st sid s w tok) =
        (socket_join st sid w)\<lparr>sockets := (sockets (socket_join st sid w))(sid \<mapsto>
           \<lparr>userId = Some u, username = Some name, userRole = Some role, canEdit = Some ce,
            whiteboardId = w\<rparr>)\<rparr>))"
  by (auto simp: on_join_def join_succeeded_def emit_error_def Let_def truthy_token_def
      socket_overwrite split: option.splits sum.splits prod.splits)

lemma on_join_closed_result: "\<not> join_succeeded sid (on_join_closed e st sid w tok)"
  by (auto simp: on_join_closed_def join_succeeded_def to_room_def
      split: option.splits sum.splits prod.splits)

lemma on_join_success:
  assumes "tok \<noteq> []" and "jwt_verify e tok = Some u" and "users e u = Some name"
    and "whiteboards e w = Some wb" and "check_access wb u = Inr (role, ce)"
  shows "on_join e st sid s w (Some tok) =
     ((socket_join st sid w)\<lparr>sockets := (sockets st)(sid \<mapsto>
          \<lparr>userId = Some u, username = Some name, userRole = Some role, canEdit = Some ce,
           whiteboardId = w\<rparr>)\<rparr>,
      map (\<lambda>m. (m, ''user-joined'',
                 [(''userId'', JStr u), (''username'', JStr name), (''userRole'', JStr role),
                  (''socketId'', JStr sid)]))
        (filter (\<lambda>m. m \<noteq> sid) (members st w))
      @ [(sid, ''room-info'',
          [(''whiteboardId'', json_of w),
           (''users'', JArr (map JObj (usersInRoom
              ((socket_join st sid w)\<lparr>sockets := (sockets st)(sid \<mapsto>
                 \<lparr>userId = Some u, username = Some name, userRole = Some role, canEdit = Some ce,
                  whiteboardId = w\<rparr>)\<rparr>) w))),
           (''yourRole'', JStr role), (''canEdit'', JBool ce)])])"
  using assms
  by (simp add: on_join_def truthy_token_def Let_def to_room_def members_sockets_update
      members_socket_join sockets_socket_join filter_absent socket_overwrite)

lemma to_room_set:
  "set (to_room st sid w ev p) = (\<lambda>m. (m, ev, p)) ` (set (members st w) - {sid})"
  by (auto simp: to_room_def)

lemma snapshot_ids_usersInRoom:
  "snapshot_ids (usersInRoom st w) = filter (\<lambda>m. sockets st m \<noteq> None) (members st w)"
proof -
  have "snapshot_ids (List.map_filter
            (\<lambda>socketId.
               case sockets st socketId of
                 None \<Rightarrow> None
               | Some socketInfo \<Rightarrow>
                   Some [(''socketId'', JStr socketId),
                         (''username'', js_str (username socketInfo)),
                         (''userRole'', js_str (userRole socketInfo))]) ms)
        = filter (\<lambda>m. sockets st m \<noteq> None) ms" for ms
    by (induction ms) (auto simp: snapshot_ids_def split: option.splits)
  then show ?thesis
    by (simp add: usersInRoom_def members_def snapshot_ids_def split: option.splits)
qed

text \<open>When every listed id is open, the snapshot has one full entry per member.\<close>

lemma usersInRoom_entries:
  assumes "set (members st w) \<subseteq> dom (sockets st)"
  shows "usersInRoom st w =
     map (\<lambda>m. [(''socketId'', JStr m),
               (''username'', js_str (username (the (sockets st m)))),
               (''userRole'', js_str (userRole (the (sockets st m))))])
       (members st w)"
proof -
  have "set ms \<subseteq> dom (sockets st) \<Longrightarrow>
        List.map_filter
            (\<lambda>socketId.
               case sockets st socketId of
                 None \<Rightarrow> None
               | Some socketInfo \<Rightarrow>
                   Some [(''socketId'', JStr socketId),
                         (''username'', js_str (username socketInfo)),
                         (''userRole'', js_str (userRole socketInfo))]) ms
        = map (\<lambda>m. [(''socketId'', JStr m),
               (''username'', js_str (username (the (sockets st m)))),
               (''userRole'', js_str (userRole (the (sockets st m))))]) ms" for ms
    by (induction ms) (auto split: option.splits)
  from this[of "members st w"] assms show ?thesis
    by (simp add: usersInRoom_def members_def split: option.splits)
qed

section \<open>Preservation of the invariants\<close>

lemma hub_inv_empty: "hub_inv empty_hub"
  by (simp add: hub_inv_def empty_hub_def members_def)

lemma hub_inv_open:
  assumes "hub_inv st"
  shows "hub_inv (socket_open st sid)"
  using assms
  by (auto simp: hub_inv_def members_socket_open sockets_socket_open split: if_splits)

lemma hub_inv_join:
  assumes "hub_inv st" and "sid \<in> dom (sockets st)"
  shows "hub_inv ((socket_join st sid w)\<lparr>sockets := (sockets (socket_join st sid w))(sid \<mapsto> s')\<rparr>)"
  using assms
  by (auto simp: hub_inv_def members_sockets_update members_socket_join sockets_socket_join
      split: if_splits)

lemma hub_inv_close:
  assumes "hub_inv st"
  shows "hub_inv (socket_close st sid)"
  using assms
  by (auto simp: hub_inv_def members_socket_close sockets_socket_close split: if_splits)

text \<open>How one step moves the member set of a room and the set of open connections.\<close>

lemma step_members:
  assumes "hub_inv st"
  shows "hub_inv (fst (step e sid ev st)) \<and>
     set (members (fst (step e sid ev st)) w) =
       (case ev of
          Connect \<Rightarrow>
            if w = RStr sid then insert sid (set (members st w)) else set (members st w)
        | JoinWhiteboard w' token \<Rightarrow>
            if w' = w \<and> join_succeeded sid (snd (step e sid ev st))
            then insert sid (set (members st w)) else set (members st w)
        | Disconnect \<Rightarrow> set (members st w) - {sid}
        | _ \<Rightarrow> set (members st w)) \<and>
     dom (sockets (fst (step e sid ev st))) =
       (case ev of
          Connect \<Rightarrow> insert sid (dom (sockets st))
        | Disconnect \<Rightarrow> dom (sockets st) - {sid}
        | _ \<Rightarrow> dom (sockets st))"
proof (cases "sockets st sid")
  case None
  have notin: "sid \<notin> set (members st w)"
    using assms None by (auto simp: hub_inv_def)
  have closed: "dom (sockets st) - {sid} = dom (sockets st)"
    using None by auto
  show ?thesis
  proof (cases ev)
    case Connect
    then show ?thesis
      using None hub_inv_open[OF assms, of sid]
      by (auto simp: step_def members_socket_open sockets_socket_open)
  next
    case (JoinWhiteboard w' tok)
    then show ?thesis
      using None assms on_join_closed_result[of sid e st w' tok]
      by (simp add: step_def)
  next
    case Disconnect
    then show ?thesis
      using None assms notin closed by (simp add: step_def)
  qed (insert None assms, simp_all add: step_def)
next
  case (Some s)
  have sid_dom: "sid \<in> dom (sockets st)"
    using Some by auto
  have own: "sid \<in> set (members st (RStr sid))"
    using assms sid_dom by (simp add: hub_inv_def)
  show ?thesis
  proof (cases ev)
    case Connect
    then show ?thesis
      using Some assms own sid_dom by (auto simp: step_def)
  next
    case (JoinWhiteboard w' tok)
    from on_join_result[of sid e st s w' tok] show ?thesis
      using Some JoinWhiteboard assms sid_dom hub_inv_join[OF assms sid_dom, of w']
      by (auto simp: step_def members_sockets_update members_socket_join sockets_socket_join
          split: if_splits)
  next
    case Disconnect
    then show ?thesis
      using Some hub_inv_close[OF assms, of sid]
      by (auto simp: step_def on_disconnect_def Let_def members_socket_close
          sockets_socket_close)
  qed (insert Some assms, simp_all add: step_def)
qed

text \<open>
  Along a run, the members of a room are the connections that joined it and have not
  closed, together with the open connection whose id names the room, if there is one.
\<close>

lemma run_members:
  "hub_inv st \<Longrightarrow> dom (sockets st) = A \<Longrightarrow>
   set (members st w) = J \<union> {sid \<in> A. w = RStr sid} \<Longrightarrow>
   hub_inv (run st tr) \<and> dom (sockets (run st tr)) = opened tr A \<and>
   set (members (run st tr) w) = joined w st tr J \<union> {sid \<in> opened tr A. w = RStr sid}"
proof (induction tr arbitrary: st A J)
  case Nil
  then show ?case by simp
next
  case (Cons x tr)
  obtain e sid ev where x: "x = (e, sid, ev)"
    by (cases x)
  let ?st' = "fst (step e sid ev st)"
  let ?J' = "case ev of
          JoinWhiteboard w' token \<Rightarrow>
            if w' = w \<and> join_succeeded sid (snd (step e sid ev st)) then insert sid J else J
        | Disconnect \<Rightarrow> J - {sid}
        | _ \<Rightarrow> J"
  let ?A' = "case ev of Connect \<Rightarrow> insert sid A | Disconnect \<Rightarrow> A - {sid} | _ \<Rightarrow> A"
  from step_members[OF Cons.prems(1), of e sid ev w]
  have inv': "hub_inv ?st'"
    and mem': "set (members ?st' w) =
       (case ev of
          Connect \<Rightarrow>
            if w = RStr sid then insert sid (set (members st w)) else set (members st w)
        | JoinWhiteboard w' token \<Rightarrow>
            if w' = w \<and> join_succeeded sid (snd (step e sid ev st))
            then insert sid (set (members st w)) else set (members st w)
        | Disconnect \<Rightarrow> set (members st w) - {sid}
        | _ \<Rightarrow> set (members st w))"
    and dom': "dom (sockets ?st') =
       (case ev of
          Connect \<Rightarrow> insert sid (dom (sockets st))
        | Disconnect \<Rightarrow> dom (sockets st) - {sid}
        | _ \<Rightarrow> dom (sockets st))"
    by simp_all
  have a: "dom (sockets ?st') = ?A'"
    using dom' Cons.prems(2) by (cases ev) simp_all
  have m: "set (members ?st' w) = ?J' \<union> {s \<in> ?A'. w = RStr s}"
    unfolding mem' Cons.prems(3) by (cases ev) auto
  from Cons.IH[OF inv' a m] show ?case
    unfolding x by simp
qed

lemma cached_room_inv_empty: "cached_room_inv empty_hub (\<lambda>w. {})"
  by (simp add: cached_room_inv_def empty_hub_def)

lemma cached_room_inv_open:
  assumes "cached_room_inv st J"
  shows "cached_room_inv (socket_open st sid) J"
  using assms by (simp add: cached_room_inv_def sockets_socket_open)

lemma cached_room_inv_join:
  assumes "cached_room_inv st J"
  shows "cached_room_inv
     ((socket_join st sid w)\<lparr>sockets := (sockets (socket_join st sid w))(sid \<mapsto>
           \<lparr>userId = Some u, username = Some name, userRole = Some role, canEdit = Some ce,
            whiteboardId = w\<rparr>)\<rparr>)
     (\<lambda>w'. if w = w' then insert sid (J w') else J w')"
  unfolding cached_room_inv_def
proof (intro allI impI)
  fix sid' s'
  let ?st' = "(socket_join st sid w)\<lparr>sockets := (sockets (socket_join st sid w))(sid \<mapsto>
           \<lparr>userId = Some u, username = Some name, userRole = Some role, canEdit = Some ce,
            whiteboardId = w\<rparr>)\<rparr>"
  assume a: "sockets ?st' sid' = Some s'"
  show "s' = new_socket \<or>
        sid' \<in> (if w = whiteboardId s' then insert sid (J (whiteboardId s')) else J (whiteboardId s'))"
  proof (cases "sid' = sid")
    case True
    with a have "whiteboardId s' = w" by auto
    with True show ?thesis by simp
  next
    case False
    with a have "sockets st sid' = Some s'"
      by (simp add: sockets_socket_join)
    with assms have "s' = new_socket \<or> sid' \<in> J (whiteboardId s')"
      by (simp add: cached_room_inv_def)
    then show ?thesis by auto
  qed
qed

lemma cached_room_inv_close:
  assumes "cached_room_inv st J"
  shows "cached_room_inv (socket_close st sid) (\<lambda>w. J w - {sid})"
  unfolding cached_room_inv_def
proof (intro allI impI)
  fix sid' s'
  assume a: "sockets (socket_close st sid) sid' = Some s'"
  then have ne: "sid' \<noteq> sid" and old: "sockets st sid' = Some s'"
    by (auto simp: sockets_socket_close split: if_splits)
  from assms old have "s' = new_socket \<or> sid' \<in> J (whiteboardId s')"
    by (simp add: cached_room_inv_def)
  with ne show "s' = new_socket \<or> sid' \<in> J (whiteboardId s') - {sid}"
    by auto
qed

lemma cached_room_inv_not_open:
  assumes "cached_room_inv st J" and "sockets st sid = None"
  shows "cached_room_inv st (\<lambda>w. J w - {sid})"
  using assms by (auto simp: cached_room_inv_def)

lemma step_cached_room_inv:
  assumes "cached_room_inv st J"
  shows "cached_room_inv (fst (step e sid ev st))
     (\<lambda>w. case ev of
          JoinWhiteboard w' token \<Rightarrow>
            if w' = w \<and> join_succeeded sid (snd (step e sid ev st)) then insert sid (J w)
            else J w
        | Disconnect \<Rightarrow> J w - {sid}
        | _ \<Rightarrow> J w)"
proof (cases "sockets st sid")
  case None
  show ?thesis
  proof (cases ev)
    case Connect
    then show ?thesis
      using None cached_room_inv_open[OF assms, of sid] by (simp add: step_def)
  next
    case (JoinWhiteboard w' tok)
    then show ?thesis
      using None assms on_join_closed_result[of sid e st w' tok] by (simp add: step_def)
  next
    case Disconnect
    then show ?thesis
      using None cached_room_inv_not_open[OF assms None] by (simp add: step_def)
  qed (insert None assms, simp_all add: step_def)
next
  case (Some s)
  show ?thesis
  proof (cases ev)
    case (JoinWhiteboard w' tok)
    from on_join_result[of sid e st s w' tok] show ?thesis
    proof
      assume "\<not> join_succeeded sid (snd (on_join e st sid s w' tok)) \<and>
              fst (on_join e st sid s w' tok) = st"
      then show ?thesis
        using Some JoinWhiteboard assms by (simp add: step_def)
    next
      assume ok: "join_succeeded sid (snd (on_join e st sid s w' tok)) \<and>
        (\<exists>u name role ce.
           fst (on_join e st sid s w' tok) =
            (socket_join st sid w')\<lparr>sockets := (sockets (socket_join st sid w'))(sid \<mapsto>
               \<lparr>userId = Some u, username = Some name, userRole = Some role, canEdit = Some ce,
                whiteboardId = w'\<rparr>)\<rparr>)"
      then obtain u name role ce where st': "fst (on_join e st sid s w' tok) =
            (socket_join st sid w')\<lparr>sockets := (sockets (socket_join st sid w'))(sid \<mapsto>
               \<lparr>userId = Some u, username = Some name, userRole = Some role, canEdit = Some ce,
                whiteboardId = w'\<rparr>)\<rparr>"
        by blast
      from ok cached_room_inv_join[OF assms, of sid w' u name role ce] show ?thesis
        using Some JoinWhiteboard by (simp add: step_def st')
    qed
  next
    case Disconnect
    then show ?thesis
      using Some cached_room_inv_close[OF assms, of sid]
      by (simp add: step_def on_disconnect_def Let_def)
  qed (insert Some assms, simp_all add: step_def)
qed

lemma run_cached_room_inv:
  "cached_room_inv st J \<Longrightarrow> cached_room_inv (run st tr) (\<lambda>w. joined w st tr (J w))"
proof (induction tr arbitrary: st J)
  case Nil
  then show ?case by simp
next
  case (Cons x tr)
  obtain e sid ev where x: "x = (e, sid, ev)"
    by (cases x)
  from Cons.IH[OF step_cached_room_inv[OF Cons.prems, of e sid ev]] show ?case
    unfolding x by simp
qed

lemma unjoined_is_new_socket:
  assumes "sockets (run empty_hub tr) sid = Some s"
    and "\<forall>w. sid \<notin> joined w empty_hub tr {}"
  shows "s = new_socket"
  using run_cached_room_inv[OF cached_room_inv_empty, of tr] assms
  by (auto simp: cached_room_inv_def)

lemma joined_append:
  "joined w st (tr @ tr') J = joined w (run st tr) tr' (joined w st tr J)"
  by (induction tr arbitrary: st J) auto

lemma opened_append: "opened (tr @ tr') A = opened tr' (opened tr A)"
  by (induction tr arbitrary: A) auto

lemma demo_joined:
  "joined w empty_hub demo_trace {} = (if w = RStr ''board1'' then {''s1'', ''s2'', ''s3''} else {})"
  by (auto simp: demo_trace_def demo_env_def handler_defs join_succeeded_def)

lemma demo_opened: "opened demo_trace {} = {''s1'', ''s2'', ''s3''}"
  by (auto simp: demo_trace_def)


section \<open>The permission check at join\<close>

text \<open>
  C1. The decision of the join handler is \<^const>\<open>check_access\<close>, a function of the access
  record and the user id alone (it reads no hub state, so equal inputs give equal
  results). First match wins: the owner gets role \<^verbatim>\<open>owner\<close> with canEdit true; otherwise
  the first collaborator entry of the user gives its permission level as role, with
  canEdit true exactly for \<^verbatim>\<open>edit\<close> and \<^verbatim>\<open>admin\<close>; otherwise a public record gives role
  \<^verbatim>\<open>viewer\<close> with canEdit false; otherwise the join is refused with \<^verbatim>\<open>Access denied\<close>.
\<close>

theorem check_access_precedence:
  "(owner wb = u \<longrightarrow> check_access wb u = Inr (''owner'', True)) \<and>
   (owner wb \<noteq> u \<and> collaborators wb = pre @ c # post \<and> u \<notin> user ` set pre \<and> user c = u \<longrightarrow>
      check_access wb u =
        Inr (permission c, permission c = ''edit'' \<or> permission c = ''admin'')) \<and>
   (owner wb \<noteq> u \<and> u \<notin> user ` set (collaborators wb) \<and> isPublic wb \<longrightarrow>
      check_access wb u = Inr (''viewer'', False)) \<and>
   (owner wb \<noteq> u \<and> u \<notin> user ` set (collaborators wb) \<and> \<not> isPublic wb \<longrightarrow>
      check_access wb u = Inl ''Access denied'')"
  by (auto simp: check_access_def find_first find_absent)

text \<open>The four branches of C1 on concrete records.\<close>

theorem check_access_precedence_witness:
  "check_access \<lparr>owner = ''alice'',
      collaborators = [\<lparr>user = ''bob'', permission = ''edit''\<rparr>,
                       \<lparr>user = ''carol'', permission = ''view''\<rparr>], isPublic = True\<rparr> ''alice''
     = Inr (''owner'', True) \<and>
   check_access \<lparr>owner = ''alice'',
      collaborators = [\<lparr>user = ''bob'', permission = ''edit''\<rparr>,
                       \<lparr>user = ''carol'', permission = ''view''\<rparr>], isPublic = True\<rparr> ''carol''
     = Inr (''view'', False) \<and>
   check_access \<lparr>owner = ''alice'',
      collaborators = [\<lparr>user = ''bob'', permission = ''edit''\<rparr>,
                       \<lparr>user = ''carol'', permission = ''view''\<rparr>], isPublic = True\<rparr> ''dave''
     = Inr (''viewer'', False) \<and>
   check_access \<lparr>owner = ''alice'',
      collaborators = [\<lparr>user = ''bob'', permission = ''edit''\<rparr>], isPublic = False\<rparr> ''dave''
     = Inl ''Access denied''"
  using
    check_access_precedence [of "\<lparr>owner = ''alice'',
      collaborators = [\<lparr>user = ''bob'', permission = ''edit''\<rparr>,
                       \<lparr>user = ''carol'', permission = ''view''\<rparr>], isPublic = True\<rparr>" "''alice''"]
    check_access_precedence [of "\<lparr>owner = ''alice'',
      collaborators = [\<lparr>user = ''bob'', permission = ''edit''\<rparr>,
                       \<lparr>user = ''carol'', permission = ''view''\<rparr>], isPublic = True\<rparr>" "''carol''"
      "[\<lparr>user = ''bob'', permission = ''edit''\<rparr>]" "\<lparr>user = ''carol'', permission = ''view''\<rparr>" "[]"]
    check_access_precedence [of "\<lparr>owner = ''alice'',
      collaborators = [\<lparr>user = ''bob'', permission = ''edit''\<rparr>,
                       \<lparr>user = ''carol'', permission = ''view''\<rparr>], isPublic = True\<rparr>" "''dave''"]
    check_access_precedence [of "\<lparr>owner = ''alice'',
      collaborators = [\<lparr>user = ''bob'', permission = ''edit''\<rparr>], isPublic = False\<rparr>" "''dave''"]
  by simp

text \<open>
  C1 with role \<^verbatim>\<open>view\<close> for the visitor of a public record does not hold: the handler
  assigns \<^verbatim>\<open>viewer\<close>, a value that no collaborator level has.
\<close>

theorem public_visitor_role_counterexample:
  "check_access \<lparr>owner = ''alice'', collaborators = [], isPublic = True\<rparr> ''bob''
     = Inr (''viewer'', False) \<and>
   check_access \<lparr>owner = ''alice'', collaborators = [], isPublic = True\<rparr> ''bob''
     \<noteq> Inr (''view'', False)"
  by (simp add: check_access_def)

section \<open>Joining\<close>

text \<open>
  C2. A successful join of room \<open>w\<close> by an open connection leaves the member set of every
  other room \<open>w'\<close> as it was (the connection stays in the rooms it joined before) and
  sends no \<^verbatim>\<open>user-left\<close>. It adds the connection to \<open>w\<close>, overwrites the five cached
  fields, sends \<^verbatim>\<open>user-joined\<close> to the other members of \<open>w\<close> and then \<^verbatim>\<open>room-info\<close>, with
  the snapshot taken after admission, to the joiner.
\<close>

theorem rejoin_adds_without_leaving:
  assumes "sockets st sid = Some s" and "tok \<noteq> []"
    and "jwt_verify e tok = Some u" and "users e u = Some name"
    and "whiteboards e w = Some wb" and "check_access wb u = Inr (role, ce)"
  shows
    "(w' \<noteq> w \<longrightarrow>
        rooms (fst (step e sid (JoinWhiteboard w (Some tok)) st)) w' = rooms st w') \<and>
     members (fst (step e sid (JoinWhiteboard w (Some tok)) st)) w =
       (if sid \<in> set (members st w) then members st w else members st w @ [sid]) \<and>
     sockets (fst (step e sid (JoinWhiteboard w (Some tok)) st)) =
       (sockets st)(sid \<mapsto>
          \<lparr>userId = Some u, username = Some name, userRole = Some role, canEdit = Some ce,
           whiteboardId = w\<rparr>) \<and>
     snd (step e sid (JoinWhiteboard w (Some tok)) st) =
       map (\<lambda>m. (m, ''user-joined'',
                  [(''userId'', JStr u), (''username'', JStr name), (''userRole'', JStr role),
                   (''socketId'', JStr sid)]))
         (filter (\<lambda>m. m \<noteq> sid) (members st w))
       @ [(sid, ''room-info'',
           [(''whiteboardId'', json_of w),
            (''users'', JArr (map JObj
               (usersInRoom (fst (step e sid (JoinWhiteboard w (Some tok)) st)) w))),
            (''yourRole'', JStr role), (''canEdit'', JBool ce)])] \<and>
     ''user-left'' \<notin>
       set (map (\<lambda>(r, ev, p). ev) (snd (step e sid (JoinWhiteboard w (Some tok)) st)))"
proof -
  have st: "step e sid (JoinWhiteboard w (Some tok)) st = on_join e st sid s w (Some tok)"
    using assms(1) by (simp add: step_def)
  show ?thesis
    unfolding st on_join_success[OF assms(2-6)]
    by (auto simp: members_sockets_update members_socket_join rooms_socket_join_other)
qed

text \<open>
  C2 on the sample deployment: bob, a member of \<^verbatim>\<open>board1\<close>, joins \<^verbatim>\<open>board2\<close>, which he
  owns. \<^verbatim>\<open>board1\<close> keeps its three members.
\<close>

theorem rejoin_adds_without_leaving_witness:
  "sockets demo_hub ''s2'' = Some bob_socket \<and> ''tok-bob'' \<noteq> [] \<and>
   jwt_verify demo_env ''tok-bob'' = Some ''bob'' \<and> users demo_env ''bob'' = Some ''Bob'' \<and>
   whiteboards demo_env (RStr ''board2'')
     = Some \<lparr>owner = ''bob'', collaborators = [], isPublic = True\<rparr> \<and>
   check_access \<lparr>owner = ''bob'', collaborators = [], isPublic = True\<rparr> ''bob''
     = Inr (''owner'', True) \<and>
   rooms (fst (step demo_env ''s2'' (JoinWhiteboard (RStr ''board2'') (Some ''tok-bob''))
      demo_hub)) (RStr ''board1'') = Some [''s1'', ''s2'', ''s3''] \<and>
   members (fst (step demo_env ''s2'' (JoinWhiteboard (RStr ''board2'') (Some ''tok-bob''))
      demo_hub)) (RStr ''board2'') = [''s2'']"
proof -
  have h1: "sockets demo_hub ''s2'' = Some bob_socket"
    by (simp add: demo_defs)
  have h2: "''tok-bob'' \<noteq> []"
    by simp
  have h3: "jwt_verify demo_env ''tok-bob'' = Some ''bob''"
    by (simp add: demo_defs)
  have h4: "users demo_env ''bob'' = Some ''Bob''"
    by (simp add: demo_defs)
  have h5: "whiteboards demo_env (RStr ''board2'')
     = Some \<lparr>owner = ''bob'', collaborators = [], isPublic = True\<rparr>"
    by (simp add: demo_defs)
  have h6: "check_access \<lparr>owner = ''bob'', collaborators = [], isPublic = True\<rparr> ''bob''
     = Inr (''owner'', True)"
    by (simp add: check_access_def)
  have old: "rooms demo_hub (RStr ''board1'') = Some [''s1'', ''s2'', ''s3'']"
    and new: "members demo_hub (RStr ''board2'') = []"
    by (simp_all add: demo_defs members_def)
  from rejoin_adds_without_leaving[OF h1 h2 h3 h4 h5 h6, of "RStr ''board1''"]
    h1 h2 h3 h4 h5 h6 old new
  show ?thesis
    by simp
qed

text \<open>
  C2 as stated does not hold: after bob's second join he is in the member sets of both
  rooms, and the only message of that join is his own \<^verbatim>\<open>room-info\<close>; the members of
  \<^verbatim>\<open>board1\<close> are told nothing.
\<close>

theorem rejoin_counterexample:
  "members (run empty_hub
      (demo_trace @ [(demo_env, ''s2'', JoinWhiteboard (RStr ''board2'') (Some ''tok-bob''))]))
      (RStr ''board1'') = [''s1'', ''s2'', ''s3''] \<and>
   members (run empty_hub
      (demo_trace @ [(demo_env, ''s2'', JoinWhiteboard (RStr ''board2'') (Some ''tok-bob''))]))
      (RStr ''board2'') = [''s2''] \<and>
   snd (step demo_env ''s2'' (JoinWhiteboard (RStr ''board2'') (Some ''tok-bob''))
          (run empty_hub demo_trace)) =
     [(''s2'', ''room-info'',
       [(''whiteboardId'', JStr ''board2''),
        (''users'', JArr [JObj [(''socketId'', JStr ''s2''), (''username'', JStr ''Bob''),
                                (''userRole'', JStr ''owner'')]]),
        (''yourRole'', JStr ''owner''), (''canEdit'', JBool True)])]"
  by (simp add: run_append demo_hub_reachable) (simp add: demo_defs handler_defs)

text \<open>
  C5. A join that fails because the whiteboard does not exist, or because the user is
  neither owner nor collaborator of a private whiteboard, sends exactly one \<^verbatim>\<open>error\<close>, to
  the joiner, and returns the hub state as it was: no \<^verbatim>\<open>room-info\<close>, no room changed, the
  connection's cached room, role and canEdit untouched.
\<close>

theorem failed_join_leaves_no_trace:
  assumes "sockets st sid = Some s" and "tok \<noteq> []"
    and "jwt_verify e tok = Some u" and "users e u = Some name"
  shows
    "(whiteboards e w = None \<longrightarrow>
        step e sid (JoinWhiteboard w (Some tok)) st =
          (st, [(sid, ''error'', [(''message'', JStr ''Whiteboard not found'')])])) \<and>
     (whiteboards e w = Some wb \<and> owner wb \<noteq> u \<and> u \<notin> user ` set (collaborators wb) \<and>
      \<not> isPublic wb \<longrightarrow>
        step e sid (JoinWhiteboard w (Some tok)) st =
          (st, [(sid, ''error'', [(''message'', JStr ''Access denied'')])]))"
  using assms
  by (auto simp: step_def on_join_def truthy_token_def emit_error_def check_access_def
      find_absent)

text \<open>
  C5 on the sample deployment: carol's connection asks for a board that does not exist,
  and asks for the private \<^verbatim>\<open>board1\<close> with dave's token.
\<close>

theorem failed_join_leaves_no_trace_witness:
  "sockets demo_hub ''s3'' = Some carol_socket \<and>
   jwt_verify demo_env ''tok-carol'' = Some ''carol'' \<and> users demo_env ''carol'' = Some ''Carol'' \<and>
   jwt_verify demo_env ''tok-dave'' = Some ''dave'' \<and> users demo_env ''dave'' = Some ''Dave'' \<and>
   whiteboards demo_env (RStr ''board9'') = None \<and>
   step demo_env ''s3'' (JoinWhiteboard (RStr ''board9'') (Some ''tok-carol'')) demo_hub =
     (demo_hub, [(''s3'', ''error'', [(''message'', JStr ''Whiteboard not found'')])]) \<and>
   step demo_env ''s3'' (JoinWhiteboard (RStr ''board1'') (Some ''tok-dave'')) demo_hub =
     (demo_hub, [(''s3'', ''error'', [(''message'', JStr ''Access denied'')])])"
proof -
  have h1: "sockets demo_hub ''s3'' = Some carol_socket"
    by (simp add: demo_defs)
  have c2: "''tok-carol'' \<noteq> []" and d2: "''tok-dave'' \<noteq> []"
    by simp_all
  have c3: "jwt_verify demo_env ''tok-carol'' = Some ''carol''"
    and c4: "users demo_env ''carol'' = Some ''Carol''"
    and d3: "jwt_verify demo_env ''tok-dave'' = Some ''dave''"
    and d4: "users demo_env ''dave'' = Some ''Dave''"
    by (simp_all add: demo_defs)
  have nf: "whiteboards demo_env (RStr ''board9'') = None"
    by (simp add: demo_defs)
  have b1: "whiteboards demo_env (RStr ''board1'') =
      Some \<lparr>owner = ''alice'',
            collaborators = [\<lparr>user = ''bob'', permission = ''edit''\<rparr>,
                             \<lparr>user = ''carol'', permission = ''view''\<rparr>],
            isPublic = False\<rparr>"
    by (simp add: demo_defs)
  from failed_join_leaves_no_trace[OF h1 c2 c3 c4, of "RStr ''board9''"]
    failed_join_leaves_no_trace[OF h1 d2 d3 d4, of "RStr ''board1''"
      "\<lparr>owner = ''alice'',
        collaborators = [\<lparr>user = ''bob'', permission = ''edit''\<rparr>,
                         \<lparr>user = ''carol'', permission = ''view''\<rparr>],
        isPublic = False\<rparr>"]
    h1 c3 c4 d3 d4 nf b1
  show ?thesis
    by simp
qed

section \<open>Relaying events\<close>

text \<open>
  C3. Each of the eight edit-gated events (drawing-start, drawing, drawing-end,
  sticky-note-add, sticky-note-update, sticky-note-delete, undo, redo) from a connection
  whose cached canEdit is not true (false, or still unassigned) is answered by exactly
  one \<^verbatim>\<open>error\<close> message, addressed to the sender; nothing is relayed and the hub state
  is unchanged.
\<close>

theorem edit_gated_rejected:
  assumes "sockets st sid = Some s" and "canEdit s \<noteq> Some True"
  shows
    "step e sid (DrawingStart data) st =
       (st, [(sid, ''error'', [(''message'', JStr ''You do not have permission to draw'')])]) \<and>
     step e sid (Drawing data) st =
       (st, [(sid, ''error'', [(''message'', JStr ''You do not have permission to draw'')])]) \<and>
     step e sid (DrawingEnd data) st =
       (st, [(sid, ''error'', [(''message'', JStr ''You do not have permission to draw'')])]) \<and>
     step e sid (StickyNoteAdd data) st =
       (st, [(sid, ''error'',
              [(''message'', JStr ''You do not have permission to add sticky notes'')])]) \<and>
     step e sid (StickyNoteUpdate data) st =
       (st, [(sid, ''error'',
              [(''message'', JStr ''You do not have permission to edit sticky notes'')])]) \<and>
     step e sid (StickyNoteDelete data) st =
       (st, [(sid, ''error'',
              [(''message'', JStr ''You do not have permission to delete sticky notes'')])]) \<and>
     step e sid (Undo data) st =
       (st, [(sid, ''error'',
              [(''message'', JStr ''You do not have permission to perform this action'')])]) \<and>
     step e sid (Redo data) st =
       (st, [(sid, ''error'',
              [(''message'', JStr ''You do not have permission to perform this action'')])])"
  using assms by (simp add: step_def emit_error_def relay_defs)

text \<open>C3 on the sample deployment: carol, a view collaborator, draws and undoes.\<close>

theorem edit_gated_rejected_witness:
  "sockets demo_hub ''s3'' = Some carol_socket \<and> canEdit carol_socket \<noteq> Some True \<and>
   step demo_env ''s3'' (Drawing [(''x'', JNum 4)]) demo_hub =
     (demo_hub,
      [(''s3'', ''error'', [(''message'', JStr ''You do not have permission to draw'')])]) \<and>
   step demo_env ''s3'' (Undo [(''x'', JNum 4)]) demo_hub =
     (demo_hub,
      [(''s3'', ''error'',
        [(''message'', JStr ''You do not have permission to perform this action'')])])"
proof -
  have h1: "sockets demo_hub ''s3'' = Some carol_socket"
    by (simp add: demo_defs)
  have h2: "canEdit carol_socket \<noteq> Some True"
    by (simp add: demo_defs)
  from edit_gated_rejected[OF h1 h2, of demo_env "[(''x'', JNum 4)]"] h1 h2
  show ?thesis
    by simp
qed

text \<open>
  C4. An event that passes its check is relayed under its own name to every member of
  the sender's cached room except the sender, and to nobody else. The payload is the
  client's with \<^verbatim>\<open>userId\<close> and \<^verbatim>\<open>username\<close> set from the sender's socket, replacing
  what the client supplied under those keys; every other key, \<^verbatim>\<open>socketId\<close> included, is
  passed on as the client sent it. Only \<^verbatim>\<open>cursor-move\<close> also sets \<^verbatim>\<open>socketId\<close> to the
  sender's connection id.
\<close>

theorem relay_tags_sender:
  assumes "sockets st sid = Some s" and "whiteboardId s = w"
  shows
    "(canEdit s = Some True \<longrightarrow>
        step e sid (DrawingStart data) st =
          (st, to_room st sid w ''drawing-start'' (with_sender s data)) \<and>
        step e sid (Drawing data) st =
          (st, to_room st sid w ''drawing'' (with_sender s data)) \<and>
        step e sid (DrawingEnd data) st =
          (st, to_room st sid w ''drawing-end'' (with_sender s data)) \<and>
        step e sid (StickyNoteAdd data) st =
          (st, to_room st sid w ''sticky-note-add'' (with_sender s data)) \<and>
        step e sid (StickyNoteUpdate data) st =
          (st, to_room st sid w ''sticky-note-update'' (with_sender s data)) \<and>
        step e sid (StickyNoteDelete data) st =
          (st, to_room st sid w ''sticky-note-delete'' (with_sender s data)) \<and>
        step e sid (Undo data) st =
          (st, to_room st sid w ''undo'' (with_sender s data)) \<and>
        step e sid (Redo data) st =
          (st, to_room st sid w ''redo'' (with_sender s data))) \<and>
     (userRole s = Some ''owner'' \<or> userRole s = Some ''admin'' \<longrightarrow>
        step e sid (ClearBoard data) st =
          (st, to_room st sid w ''clear-board'' (with_sender s data))) \<and>
     (truthy w \<longrightarrow>
        step e sid (CursorMove data) st =
          (st, to_room st sid w ''cursor-move''
                 (AList.update ''socketId'' (JStr sid) (with_sender s data)))) \<and>
     map_of (with_sender s data) =
       (map_of data)(''userId'' \<mapsto> js_str (userId s), ''username'' \<mapsto> js_str (username s)) \<and>
     map_of (AList.update ''socketId'' (JStr sid) (with_sender s data)) =
       (map_of data)(''userId'' \<mapsto> js_str (userId s), ''username'' \<mapsto> js_str (username s),
                     ''socketId'' \<mapsto> JStr sid) \<and>
     set (to_room st sid w ev p) = (\<lambda>m. (m, ev, p)) ` (set (members st w) - {sid})"
proof -
  have gated: "canEdit s = Some True \<Longrightarrow>
        step e sid (DrawingStart data) st =
          (st, to_room st sid w ''drawing-start'' (with_sender s data)) \<and>
        step e sid (Drawing data) st =
          (st, to_room st sid w ''drawing'' (with_sender s data)) \<and>
        step e sid (DrawingEnd data) st =
          (st, to_room st sid w ''drawing-end'' (with_sender s data)) \<and>
        step e sid (StickyNoteAdd data) st =
          (st, to_room st sid w ''sticky-note-add'' (with_sender s data)) \<and>
        step e sid (StickyNoteUpdate data) st =
          (st, to_room st sid w ''sticky-note-update'' (with_sender s data)) \<and>
        step e sid (StickyNoteDelete data) st =
          (st, to_room st sid w ''sticky-note-delete'' (with_sender s data)) \<and>
        step e sid (Undo data) st =
          (st, to_room st sid w ''undo'' (with_sender s data)) \<and>
        step e sid (Redo data) st =
          (st, to_room st sid w ''redo'' (with_sender s data))"
    using assms by (simp add: step_def relay_defs)
  have clear: "userRole s = Some ''owner'' \<or> userRole s = Some ''admin'' \<Longrightarrow>
        step e sid (ClearBoard data) st =
          (st, to_room st sid w ''clear-board'' (with_sender s data))"
    using assms by (auto simp: step_def on_clear_board_def)
  have cursor: "truthy w \<Longrightarrow>
        step e sid (CursorMove data) st =
          (st, to_room st sid w ''cursor-move''
                 (AList.update ''socketId'' (JStr sid) (with_sender s data)))"
    using assms by (simp add: step_def on_cursor_move_def)
  have tags: "map_of (with_sender s data) =
       (map_of data)(''userId'' \<mapsto> js_str (userId s), ''username'' \<mapsto> js_str (username s))"
    by (simp add: with_sender_def update_conv')
  have tags': "map_of (AList.update ''socketId'' (JStr sid) (with_sender s data)) =
       (map_of data)(''userId'' \<mapsto> js_str (userId s), ''username'' \<mapsto> js_str (username s),
                     ''socketId'' \<mapsto> JStr sid)"
    by (simp add: with_sender_def update_conv')
  from gated clear cursor tags tags' to_room_set[of st sid w ev p] show ?thesis
    by blast
qed

text \<open>
  C4 on the sample deployment: alice, the owner, clears the board; her stroke, sent
  under a false \<^verbatim>\<open>userId\<close>, reaches bob and carol under her own; her cursor position
  carries her connection id.
\<close>

theorem relay_tags_sender_witness:
  "sockets demo_hub ''s1'' = Some alice_socket \<and> whiteboardId alice_socket = RStr ''board1'' \<and>
   canEdit alice_socket = Some True \<and> userRole alice_socket = Some ''owner'' \<and>
   truthy (RStr ''board1'') \<and>
   step demo_env ''s1'' (ClearBoard []) demo_hub =
     (demo_hub,
      [(''s2'', ''clear-board'', [(''userId'', JStr ''alice''), (''username'', JStr ''Alice'')]),
       (''s3'', ''clear-board'', [(''userId'', JStr ''alice''), (''username'', JStr ''Alice'')])]) \<and>
   step demo_env ''s1'' (Drawing [(''userId'', JStr ''mallory''), (''x'', JNum 4)]) demo_hub =
     (demo_hub,
      [(''s2'', ''drawing'',
        [(''userId'', JStr ''alice''), (''x'', JNum 4), (''username'', JStr ''Alice'')]),
       (''s3'', ''drawing'',
        [(''userId'', JStr ''alice''), (''x'', JNum 4), (''username'', JStr ''Alice'')])]) \<and>
   step demo_env ''s1'' (CursorMove [(''x'', JNum 4)]) demo_hub =
     (demo_hub,
      [(''s2'', ''cursor-move'',
        [(''x'', JNum 4), (''userId'', JStr ''alice''), (''username'', JStr ''Alice''),
         (''socketId'', JStr ''s1'')]),
       (''s3'', ''cursor-move'',
        [(''x'', JNum 4), (''userId'', JStr ''alice''), (''username'', JStr ''Alice''),
         (''socketId'', JStr ''s1'')])])"
proof -
  have h1: "sockets demo_hub ''s1'' = Some alice_socket"
    by (simp add: demo_defs)
  have h2: "whiteboardId alice_socket = RStr ''board1''"
    by (simp add: demo_defs)
  have h3: "canEdit alice_socket = Some True"
    by (simp add: demo_defs)
  have h4: "truthy (RStr ''board1'')"
    by (simp add: truthy_def)
  have h5: "userRole alice_socket = Some ''owner''"
    by (simp add: demo_defs)
  have p0: "with_sender alice_socket [] =
      [(''userId'', JStr ''alice''), (''username'', JStr ''Alice'')]"
    by (simp add: with_sender_def js_str_def demo_defs)
  have r: "to_room demo_hub ''s1'' (RStr ''board1'') ev p = [(''s2'', ev, p), (''s3'', ev, p)]"
    for ev p
    by (simp add: to_room_def members_def demo_defs)
  have p1: "with_sender alice_socket [(''userId'', JStr ''mallory''), (''x'', JNum 4)] =
      [(''userId'', JStr ''alice''), (''x'', JNum 4), (''username'', JStr ''Alice'')]"
    and p2: "AList.update ''socketId'' (JStr ''s1'') (with_sender alice_socket [(''x'', JNum 4)]) =
      [(''x'', JNum 4), (''userId'', JStr ''alice''), (''username'', JStr ''Alice''),
       (''socketId'', JStr ''s1'')]"
    by (simp_all add: with_sender_def js_str_def demo_defs)
  from relay_tags_sender[OF h1 h2, of demo_env "[(''userId'', JStr ''mallory''), (''x'', JNum 4)]"]
    relay_tags_sender[OF h1 h2, of demo_env "[(''x'', JNum 4)]"]
    relay_tags_sender[OF h1 h2, of demo_env "[]"] h1 h2 h3 h4 h5
  show ?thesis
    by (simp add: r p0 p1 p2)
qed

text \<open>
  C4 with the connection id attached to every relayed event does not hold: a relayed
  \<^verbatim>\<open>drawing\<close> carries the \<^verbatim>\<open>socketId\<close> the client wrote, or none at all.
\<close>

theorem relay_connection_id_counterexample:
  "snd (step demo_env ''s1'' (Drawing [(''socketId'', JStr ''forged'')]) demo_hub) =
     [(''s2'', ''drawing'',
       [(''socketId'', JStr ''forged''), (''userId'', JStr ''alice''),
        (''username'', JStr ''Alice'')]),
      (''s3'', ''drawing'',
       [(''socketId'', JStr ''forged''), (''userId'', JStr ''alice''),
        (''username'', JStr ''Alice'')])] \<and>
   snd (step demo_env ''s1'' (Drawing []) demo_hub) =
     [(''s2'', ''drawing'', [(''userId'', JStr ''alice''), (''username'', JStr ''Alice'')]),
      (''s3'', ''drawing'', [(''userId'', JStr ''alice''), (''username'', JStr ''Alice'')])]"
  by (simp add: demo_defs handler_defs on_drawing_def with_sender_def)

text \<open>
  C7. \<^verbatim>\<open>clear-board\<close> from a connection whose cached role is neither \<^verbatim>\<open>owner\<close> nor
  \<^verbatim>\<open>admin\<close> (so for \<^verbatim>\<open>edit\<close> and \<^verbatim>\<open>view\<close>) is answered by one \<^verbatim>\<open>error\<close> to the sender and
  is not relayed; from a connection whose cached role is \<^verbatim>\<open>owner\<close> or \<^verbatim>\<open>admin\<close> it is
  relayed to every other member of the room cached with that role.
\<close>

theorem clear_board_gate:
  assumes "sockets st sid = Some s"
  shows
    "(userRole s \<noteq> Some ''owner'' \<and> userRole s \<noteq> Some ''admin'' \<longrightarrow>
        step e sid (ClearBoard data) st =
          (st, [(sid, ''error'',
                 [(''message'', JStr ''You do not have permission to clear the board'')])])) \<and>
     ((userRole s = Some ''owner'' \<or> userRole s = Some ''admin'') \<and> whiteboardId s = w \<longrightarrow>
        step e sid (ClearBoard data) st =
          (st, map (\<lambda>m. (m, ''clear-board'', with_sender s data))
                 (filter (\<lambda>m. m \<noteq> sid) (members st w))))"
  using assms by (auto simp: step_def emit_error_def on_clear_board_def to_room_def)

text \<open>
  C7 on the sample deployment: bob (edit) and carol (view) are refused, alice (owner)
  clears the board for bob and carol.
\<close>

theorem clear_board_gate_witness:
  "sockets demo_hub ''s1'' = Some alice_socket \<and> userRole alice_socket = Some ''owner'' \<and>
   whiteboardId alice_socket = RStr ''board1'' \<and>
   sockets demo_hub ''s2'' = Some bob_socket \<and> userRole bob_socket = Some ''edit'' \<and>
   sockets demo_hub ''s3'' = Some carol_socket \<and> userRole carol_socket = Some ''view'' \<and>
   step demo_env ''s2'' (ClearBoard []) demo_hub =
     (demo_hub,
      [(''s2'', ''error'',
        [(''message'', JStr ''You do not have permission to clear the board'')])]) \<and>
   step demo_env ''s3'' (ClearBoard []) demo_hub =
     (demo_hub,
      [(''s3'', ''error'',
        [(''message'', JStr ''You do not have permission to clear the board'')])]) \<and>
   step demo_env ''s1'' (ClearBoard []) demo_hub =
     (demo_hub,
      [(''s2'', ''clear-board'', [(''userId'', JStr ''alice''), (''username'', JStr ''Alice'')]),
       (''s3'', ''clear-board'', [(''userId'', JStr ''alice''), (''username'', JStr ''Alice'')])])"
proof -
  have a: "sockets demo_hub ''s1'' = Some alice_socket"
    and b: "sockets demo_hub ''s2'' = Some bob_socket"
    and c: "sockets demo_hub ''s3'' = Some carol_socket"
    by (simp_all add: demo_defs)
  have ra: "userRole alice_socket = Some ''owner''"
    and wa: "whiteboardId alice_socket = RStr ''board1''"
    and rb: "userRole bob_socket = Some ''edit''"
    and rc: "userRole carol_socket = Some ''view''"
    by (simp_all add: demo_defs)
  have m: "members demo_hub (RStr ''board1'') = [''s1'', ''s2'', ''s3'']"
    by (simp add: members_def demo_defs)
  have p: "with_sender alice_socket [] =
      [(''userId'', JStr ''alice''), (''username'', JStr ''Alice'')]"
    by (simp add: with_sender_def js_str_def demo_defs)
  from clear_board_gate[OF a, of demo_env "[]" "RStr ''board1''"]
    clear_board_gate[OF b, of demo_env "[]"] clear_board_gate[OF c, of demo_env "[]"]
    a b c ra wa rb rc
  show ?thesis
    by (simp add: m p)
qed




text \<open>
  C10. Along any run from the empty hub, an open connection that has joined no room
  successfully since it opened gets no answer and no relay for \<^verbatim>\<open>cursor-move\<close>, and for
  each edit-gated event and for \<^verbatim>\<open>clear-board\<close> gets one \<^verbatim>\<open>error\<close> with the permission
  message of that event; nothing is relayed and the state is unchanged.
\<close>

theorem unjoined_session_events:
  assumes "sockets (run empty_hub tr) sid = Some s"
    and "\<forall>w. sid \<notin> joined w empty_hub tr {}"
  shows
    "step e sid (CursorMove data) (run empty_hub tr) = (run empty_hub tr, []) \<and>
     step e sid (DrawingStart data) (run empty_hub tr) =
       (run empty_hub tr,
        [(sid, ''error'', [(''message'', JStr ''You do not have permission to draw'')])]) \<and>
     step e sid (Drawing data) (run empty_hub tr) =
       (run empty_hub tr,
        [(sid, ''error'', [(''message'', JStr ''You do not have permission to draw'')])]) \<and>
     step e sid (DrawingEnd data) (run empty_hub tr) =
       (run empty_hub tr,
        [(sid, ''error'', [(''message'', JStr ''You do not have permission to draw'')])]) \<and>
     step e sid (StickyNoteAdd data) (run empty_hub tr) =
       (run empty_hub tr,
        [(sid, ''error'',
          [(''message'', JStr ''You do not have permission to add sticky notes'')])]) \<and>
     step e sid (StickyNoteUpdate data) (run empty_hub tr) =
       (run empty_hub tr,
        [(sid, ''error'',
          [(''message'', JStr ''You do not have permission to edit sticky notes'')])]) \<and>
     step e sid (StickyNoteDelete data) (run empty_hub tr) =
       (run empty_hub tr,
        [(sid, ''error'',
          [(''message'', JStr ''You do not have permission to delete sticky notes'')])]) \<and>
     step e sid (Undo data) (run empty_hub tr) =
       (run empty_hub tr,
        [(sid, ''error'',
          [(''message'', JStr ''You do not have permission to perform this action'')])]) \<and>
     step e sid (Redo data) (run empty_hub tr) =
       (run empty_hub tr,
        [(sid, ''error'',
          [(''message'', JStr ''You do not have permission to perform this action'')])]) \<and>
     step e sid (ClearBoard data) (run empty_hub tr) =
       (run empty_hub tr,
        [(sid, ''error'',
          [(''message'', JStr ''You do not have permission to clear the board'')])])"
proof -
  have s: "s = new_socket"
    using unjoined_is_new_socket[OF assms] .
  show ?thesis
    using assms(1) unfolding s
    by (simp add: step_def emit_error_def relay_defs on_clear_board_def on_cursor_move_def
        truthy_def new_socket_def)
qed

text \<open>
  C10 on the sample deployment: a fourth connection opens and, before joining, moves
  its cursor, draws and clears.
\<close>

theorem unjoined_session_events_witness:
  "sockets (run empty_hub (demo_trace @ [(demo_env, ''s4'', Connect)])) ''s4'' = Some new_socket \<and>
   (\<forall>w. ''s4'' \<notin> joined w empty_hub (demo_trace @ [(demo_env, ''s4'', Connect)]) {}) \<and>
   snd (step demo_env ''s4'' (CursorMove [])
          (run empty_hub (demo_trace @ [(demo_env, ''s4'', Connect)]))) = [] \<and>
   snd (step demo_env ''s4'' (Drawing [])
          (run empty_hub (demo_trace @ [(demo_env, ''s4'', Connect)]))) =
     [(''s4'', ''error'', [(''message'', JStr ''You do not have permission to draw'')])] \<and>
   snd (step demo_env ''s4'' (ClearBoard [])
          (run empty_hub (demo_trace @ [(demo_env, ''s4'', Connect)]))) =
     [(''s4'', ''error'',
       [(''message'', JStr ''You do not have permission to clear the board'')])]"
proof -
  have h1: "sockets (run empty_hub (demo_trace @ [(demo_env, ''s4'', Connect)])) ''s4''
      = Some new_socket"
    by (simp add: run_append demo_hub_reachable)
       (simp add: step_def sockets_socket_open demo_defs)
  have h2: "\<forall>w. ''s4'' \<notin> joined w empty_hub (demo_trace @ [(demo_env, ''s4'', Connect)]) {}"
    by (simp add: joined_append demo_joined)
  from unjoined_session_events[OF h1 h2, of demo_env "[]"] h1 h2
  show ?thesis
    by simp
qed

section \<open>Leaving\<close>




section \<open>Snapshots\<close>

text \<open>
  C6. After any finite sequence of events from the empty hub, the snapshot of a room
  \<open>w\<close> has exactly one entry for each connection that has joined \<open>w\<close> successfully and
  has not closed since, and, when \<open>w\<close> is the id of an open connection, one for that
  connection whether it joined or not; it has no other entry. Every listed connection is
  open, and its entry is its connection id with the display name and the role now cached
  on its socket (those of its latest successful join, in whichever room).
\<close>

theorem snapshot_listing:
  "distinct (snapshot_ids (usersInRoom (run empty_hub tr) w)) \<and>
   set (snapshot_ids (usersInRoom (run empty_hub tr) w)) =
     joined w empty_hub tr {} \<union> {sid \<in> opened tr {}. w = RStr sid} \<and>
   set (snapshot_ids (usersInRoom (run empty_hub tr) w)) \<subseteq> dom (sockets (run empty_hub tr)) \<and>
   usersInRoom (run empty_hub tr) w =
     map (\<lambda>m. [(''socketId'', JStr m),
               (''username'', js_str (username (the (sockets (run empty_hub tr) m)))),
               (''userRole'', js_str (userRole (the (sockets (run empty_hub tr) m))))])
       (snapshot_ids (usersInRoom (run empty_hub tr) w))"
proof -
  have start: "set (members empty_hub w) = {} \<union> {sid \<in> {}. w = RStr sid}"
    and none: "dom (sockets empty_hub) = {}"
    by (simp_all add: empty_hub_def members_def)
  from run_members[OF hub_inv_empty none start, of tr]
  have inv: "hub_inv (run empty_hub tr)"
    and mem: "set (members (run empty_hub tr) w) =
      joined w empty_hub tr {} \<union> {sid \<in> opened tr {}. w = RStr sid}"
    by simp_all
  from inv have d: "distinct (members (run empty_hub tr) w)"
    and sub: "set (members (run empty_hub tr) w) \<subseteq> dom (sockets (run empty_hub tr))"
    by (simp_all add: hub_inv_def)
  from sub have ids: "snapshot_ids (usersInRoom (run empty_hub tr) w) = members (run empty_hub tr) w"
    by (auto simp: snapshot_ids_usersInRoom filter_id_conv)
  show ?thesis
    unfolding ids using d mem sub usersInRoom_entries[OF sub] by simp
qed

text \<open>
  C6 on the sample deployment: after alice, bob and carol have joined \<^verbatim>\<open>board1\<close> and
  bob's transport has closed, the snapshot lists alice and carol.
\<close>

theorem snapshot_listing_witness:
  "usersInRoom (run empty_hub (demo_trace @ [(demo_env, ''s2'', Disconnect)])) (RStr ''board1'') =
     [[(''socketId'', JStr ''s1''), (''username'', JStr ''Alice''), (''userRole'', JStr ''owner'')],
      [(''socketId'', JStr ''s3''), (''username'', JStr ''Carol''), (''userRole'', JStr ''view'')]] \<and>
   joined (RStr ''board1'') empty_hub (demo_trace @ [(demo_env, ''s2'', Disconnect)]) {}
     \<union> {sid \<in> opened (demo_trace @ [(demo_env, ''s2'', Disconnect)]) {}. RStr ''board1'' = RStr sid}
     = {''s1'', ''s3''}"
proof -
  have st: "run empty_hub (demo_trace @ [(demo_env, ''s2'', Disconnect)]) =
      \<lparr>sockets = [''s1'' \<mapsto> alice_socket, ''s3'' \<mapsto> carol_socket],
       rooms = [RStr ''s1'' \<mapsto> [''s1''], RStr ''s3'' \<mapsto> [''s3''],
                RStr ''board1'' \<mapsto> [''s1'', ''s3'']]\<rparr>"
    by (simp add: run_append demo_hub_reachable) (simp add: demo_defs handler_defs fun_eq_iff)
  have u: "usersInRoom (run empty_hub (demo_trace @ [(demo_env, ''s2'', Disconnect)]))
      (RStr ''board1'') =
     [[(''socketId'', JStr ''s1''), (''username'', JStr ''Alice''), (''userRole'', JStr ''owner'')],
      [(''socketId'', JStr ''s3''), (''username'', JStr ''Carol''), (''userRole'', JStr ''view'')]]"
    unfolding st by (simp add: usersInRoom_def List.map_filter_def js_str_def demo_defs)
  have ids: "snapshot_ids
      [[(''socketId'', JStr ''s1''), (''username'', JStr ''Alice''), (''userRole'', JStr ''owner'')],
       [(''socketId'', JStr ''s3''), (''username'', JStr ''Carol''), (''userRole'', JStr ''view'')]]
      = [''s1'', ''s3'']"
    by (simp add: snapshot_ids_def)
  from snapshot_listing[of "demo_trace @ [(demo_env, ''s2'', Disconnect)]" "RStr ''board1''"]
  show ?thesis
    unfolding u ids by simp
qed

text \<open>
  C6 with the joined connections only does not hold: dave's public board has the id
  \<^verbatim>\<open>s1\<close>, which is also the id of alice's connection. When carol joins it her snapshot
  lists alice's connection first, and alice never joined that board.
\<close>

theorem snapshot_private_room_counterexample:
  "usersInRoom (run empty_hub
      (demo_trace @ [(demo_env, ''s3'', JoinWhiteboard (RStr ''s1'') (Some ''tok-carol''))]))
      (RStr ''s1'') =
     [[(''socketId'', JStr ''s1''), (''username'', JStr ''Alice''), (''userRole'', JStr ''owner'')],
      [(''socketId'', JStr ''s3''), (''username'', JStr ''Carol''),
       (''userRole'', JStr ''viewer'')]] \<and>
   joined (RStr ''s1'') empty_hub
      (demo_trace @ [(demo_env, ''s3'', JoinWhiteboard (RStr ''s1'') (Some ''tok-carol''))]) {}
     = {''s3''}"
  by (simp add: run_append joined_append demo_joined demo_hub_reachable)
     (simp add: demo_defs handler_defs join_succeeded_def)

section \<open>A room id that is falsy\<close>

text \<open>
  Alice and bob join the board stored as \<^verbatim>\<open>'0'\<close> under the number \<^verbatim>\<open>0\<close>. They are in the
  room named by the number, not in the one named by the string. Alice's stroke reaches
  bob, but the handlers that test the cached id for truth treat bob as in no room: his
  cursor position is dropped, and nobody is told when his transport closes.
\<close>

lemma falsy_room_id_example:
  "members (run empty_hub
      [(demo_env, ''s1'', Connect),
       (demo_env, ''s1'', JoinWhiteboard (RNum 0) (Some ''tok-alice'')),
       (demo_env, ''s2'', Connect),
       (demo_env, ''s2'', JoinWhiteboard (RNum 0) (Some ''tok-bob''))]) (RNum 0)
     = [''s1'', ''s2''] \<and>
   members (run empty_hub
      [(demo_env, ''s1'', Connect),
       (demo_env, ''s1'', JoinWhiteboard (RNum 0) (Some ''tok-alice'')),
       (demo_env, ''s2'', Connect),
       (demo_env, ''s2'', JoinWhiteboard (RNum 0) (Some ''tok-bob''))]) (RStr ''0'')
     = [] \<and>
   snd (step demo_env ''s1'' (Drawing [])
      (run empty_hub
        [(demo_env, ''s1'', Connect),
         (demo_env, ''s1'', JoinWhiteboard (RNum 0) (Some ''tok-alice'')),
         (demo_env, ''s2'', Connect),
         (demo_env, ''s2'', JoinWhiteboard (RNum 0) (Some ''tok-bob''))]))
     = [(''s2'', ''drawing'', [(''userId'', JStr ''alice''), (''username'', JStr ''Alice'')])] \<and>
   snd (step demo_env ''s2'' (CursorMove [])
      (run empty_hub
        [(demo_env, ''s1'', Connect),
         (demo_env, ''s1'', JoinWhiteboard (RNum 0) (Some ''tok-alice'')),
         (demo_env, ''s2'', Connect),
         (demo_env, ''s2'', JoinWhiteboard (RNum 0) (Some ''tok-bob''))]))
     = [] \<and>
   snd (step demo_env ''s2'' Disconnect
      (run empty_hub
        [(demo_env, ''s1'', Connect),
         (demo_env, ''s1'', JoinWhiteboard (RNum 0) (Some ''tok-alice'')),
         (demo_env, ''s2'', Connect),
         (demo_env, ''s2'', JoinWhiteboard (RNum 0) (Some ''tok-bob''))]))
     = []"
  by (simp add: demo_env_def handler_defs on_drawing_def on_cursor_move_def with_sender_def)

end
